theory Spec2Isabelle
  imports Main "HOL-Library.Word"
begin

section \<open>Values of the Python program\<close>

text \<open>
  A Python \<open>str\<close> is a sequence of Unicode code points (lone surrogates included), a
  \<open>bytes\<close> object a sequence of octets. The file system is a finite map from path strings
  to the contents of the regular, readable files stored there.
\<close>

type_synonym pystr = "nat list"
type_synonym bytes = "8 word list"
type_synonym filesystem = "pystr \<rightharpoonup> bytes"

definition str_lit :: "string \<Rightarrow> pystr" where
  "str_lit s = map of_char s"

text \<open>The apostrophe that the f-strings put around a path.\<close>

definition squote :: pystr where
  "squote = [0x27]"

definition startswith :: "pystr \<Rightarrow> pystr \<Rightarrow> bool" where
  "startswith s p = (take (length p) s = p)"

definition endswith :: "pystr \<Rightarrow> pystr \<Rightarrow> bool" where
  "endswith s p = (length p \<le> length s \<and> drop (length s - length p) s = p)"

text \<open>The code points that UTF-8 cannot represent.\<close>

definition is_surrogate :: "nat \<Rightarrow> bool" where
  "is_surrogate c = (0xD800 \<le> c \<and> c \<le> 0xDFFF)"

datatype py_exc =
    UnicodeEncodeError
  | SystemExit int
  | AttributeError
  | FileNotFoundError

datatype entry_point = Api_compress_file | Api_decompress_file

text \<open>
  Everything the two modules do to the outside is recorded, in program order, in a trace:
  a line printed, \<open>ctypes.CDLL\<close> called on a path, a foreign entry point called with its two
  marshalled buffers, \<open>filecmp.cmp\<close> called on two paths, \<open>os.remove\<close> called on a path.
\<close>

datatype event =
    Print pystr
  | Load pystr
  | Foreign entry_point bytes bytes
  | FileCmp pystr pystr
  | Remove pystr

record world =
  files :: filesystem
  trace :: "event list"
  stdout_strict :: bool

text \<open>
  \<open>sys.stdout\<close> is a UTF-8 text stream. With the error handler \<open>strict\<close> (the field
  \<open>stdout_strict\<close>) it cannot encode a line that holds a surrogate: \<open>print\<close> then raises
  \<open>UnicodeEncodeError\<close> and nothing is written. Otherwise the line reaches the stream.
  A statement that may raise returns the exception or its value, with the world it leaves;
  \<open>and_then\<close> runs the rest of a block after a statement that did not raise.
\<close>

definition printable :: "world \<Rightarrow> pystr \<Rightarrow> bool" where
  "printable w s = (\<not> (stdout_strict w \<and> list_ex is_surrogate s))"

definition emit :: "pystr \<Rightarrow> world \<Rightarrow> world" where
  "emit s w = w\<lparr>trace := trace w @ [Print s]\<rparr>"

definition py_print :: "pystr \<Rightarrow> world \<Rightarrow> (py_exc + unit) \<times> world" where
  "py_print s w = (if printable w s then (Inr (), emit s w) else (Inl UnicodeEncodeError, w))"

definition and_then ::
  "(py_exc + unit) \<times> world \<Rightarrow> (world \<Rightarrow> (py_exc + 'a) \<times> world) \<Rightarrow> (py_exc + 'a) \<times> world" where
  "and_then r k = (case r of (Inl e, w) \<Rightarrow> (Inl e, w) | (Inr u, w) \<Rightarrow> k w)"

definition os_path_exists :: "filesystem \<Rightarrow> pystr \<Rightarrow> bool" where
  "os_path_exists fs p = (fs p \<noteq> None)"

definition os_remove :: "pystr \<Rightarrow> world \<Rightarrow> world" where
  "os_remove p w = w\<lparr>files := (files w)(p := None), trace := trace w @ [Remove p]\<rparr>"

text \<open>
  \<open>filecmp.cmp(f1, f2, shallow=False)\<close>: both files are opened and their contents compared;
  a missing file raises \<open>FileNotFoundError\<close>.
\<close>

definition filecmp_cmp :: "filesystem \<Rightarrow> pystr \<Rightarrow> pystr \<Rightarrow> py_exc + bool" where
  "filecmp_cmp fs f1 f2 =
     (case fs f1 of
        None \<Rightarrow> Inl FileNotFoundError
      | Some c1 \<Rightarrow>
          (case fs f2 of
             None \<Rightarrow> Inl FileNotFoundError
           | Some c2 \<Rightarrow> Inr (c1 = c2)))"

subsection \<open>\<open>str.encode('utf-8')\<close> and the \<open>c_char_p\<close> conversion\<close>

definition utf8_char :: "nat \<Rightarrow> py_exc + bytes" where
  "utf8_char c =
     (if c < 0x80 then Inr [of_nat c]
      else if c < 0x800 then Inr [of_nat (0xC0 + c div 0x40), of_nat (0x80 + c mod 0x40)]
      else if is_surrogate c then Inl UnicodeEncodeError
      else if c < 0x10000 then
        Inr [of_nat (0xE0 + c div 0x1000), of_nat (0x80 + c div 0x40 mod 0x40),
             of_nat (0x80 + c mod 0x40)]
      else
        Inr [of_nat (0xF0 + c div 0x40000), of_nat (0x80 + c div 0x1000 mod 0x40),
             of_nat (0x80 + c div 0x40 mod 0x40), of_nat (0x80 + c mod 0x40)])"

fun encode_utf8 :: "pystr \<Rightarrow> py_exc + bytes" where
  "encode_utf8 [] = Inr []"
| "encode_utf8 (c # cs) =
     (case utf8_char c of
        Inl e \<Rightarrow> Inl e
      | Inr b \<Rightarrow>
          (case encode_utf8 cs of
             Inl e \<Rightarrow> Inl e
           | Inr bs \<Rightarrow> Inr (b @ bs)))"

text \<open>
  With \<open>argtypes = [c_char_p, c_char_p]\<close> a \<open>bytes\<close> argument crosses the boundary as a
  pointer to its buffer, which ends with a NUL octet.
\<close>

definition c_char_p :: "bytes \<Rightarrow> bytes" where
  "c_char_p b = b @ [0]"

section \<open>The native library and the host\<close>

text \<open>
  The native codec is outside the program. An entry point takes the two buffers and the file
  system and returns its \<open>int\<close> status (\<open>restype = c_int\<close>) and the file system it leaves.
  A loaded library either exports a symbol or not. The host supplies \<open>sys.platform\<close>, the
  value of \<open>os.path.dirname(__file__)\<close> in each module, the platform's \<open>os.path.join\<close> and
  the dynamic loader behind \<open>ctypes.CDLL\<close>, which fails with the text of an \<open>OSError\<close> or
  yields the library.
\<close>

type_synonym native_fn = "bytes \<Rightarrow> bytes \<Rightarrow> filesystem \<Rightarrow> 32 word \<times> filesystem"

record native_lib =
  sym_api_compress_file :: "native_fn option"
  sym_api_decompress_file :: "native_fn option"

record host =
  sys_platform :: pystr
  wrapper_dir :: pystr
  demo_dir :: pystr
  os_path_join :: "pystr \<Rightarrow> pystr list \<Rightarrow> pystr"
  ctypes_CDLL :: "pystr \<Rightarrow> filesystem \<Rightarrow> pystr + native_lib"

text \<open>\<open>posixpath.join\<close>, the \<open>os.path.join\<close> of a POSIX host.\<close>

fun posix_join :: "pystr \<Rightarrow> pystr list \<Rightarrow> pystr" where
  "posix_join path [] = path"
| "posix_join path (b # p) =
     posix_join
       (if startswith b (str_lit ''/'') then b
        else if path = [] \<or> endswith path (str_lit ''/'') then path @ b
        else path @ str_lit ''/'' @ b) p"

section \<open>wrapper.py\<close>

definition lib_name :: "pystr \<Rightarrow> pystr" where
  "lib_name platform =
     (if startswith platform (str_lit ''win'') then str_lit ''libhuffman.dll''
      else if startswith platform (str_lit ''darwin'') then str_lit ''libhuffman.dylib''
      else str_lit ''libhuffman.so'')"

definition lib_path :: "host \<Rightarrow> pystr" where
  "lib_path h =
     os_path_join h (wrapper_dir h)
       [str_lit ''..'', str_lit ''bin'', lib_name (sys_platform h)]"

text \<open>The module object \<open>libhuffman\<close> once both entry points are bound.\<close>

record libhuffman =
  api_compress_file :: native_fn
  api_decompress_file :: native_fn

text \<open>
  The module body: what \<open>import wrapper\<close> runs. \<open>sys.exit(1)\<close> raises \<open>SystemExit\<close>; an
  attribute that the library does not export raises \<open>AttributeError\<close>.
\<close>

definition wrapper_import :: "host \<Rightarrow> world \<Rightarrow> (py_exc + libhuffman) \<times> world" where
  "wrapper_import h w =
     (if \<not> os_path_exists (files w) (lib_path h) then
        and_then (py_print (str_lit ''Error: Shared library not found at '' @ lib_path h) w) (\<lambda>w1.
        and_then (py_print (str_lit ''Please compile the C code first by running 'make lib' or 'make all' in the root directory.'') w1) (\<lambda>w2.
        (Inl (SystemExit 1), w2)))
      else
        let w1 = w\<lparr>trace := trace w @ [Load (lib_path h)]\<rparr> in
        case ctypes_CDLL h (lib_path h) (files w) of
          Inl e \<Rightarrow>
            and_then (py_print (str_lit ''Error loading C library: '' @ e) w1) (\<lambda>w2.
            and_then (py_print (str_lit ''This can happen if you are trying to run this on Windows *without* WSL.'') w2) (\<lambda>w3.
            (Inl (SystemExit 1), w3)))
        | Inr l \<Rightarrow>
            (case sym_api_compress_file l of
               None \<Rightarrow> (Inl AttributeError, w1)
             | Some fc \<Rightarrow>
                 (case sym_api_decompress_file l of
                    None \<Rightarrow> (Inl AttributeError, w1)
                  | Some fd \<Rightarrow>
                      (Inr \<lparr>api_compress_file = fc, api_decompress_file = fd\<rparr>, w1))))"

definition compress :: "libhuffman \<Rightarrow> pystr \<Rightarrow> pystr \<Rightarrow> world \<Rightarrow> (py_exc + bool) \<times> world" where
  "compress lib input_path output_path w =
     and_then (py_print (str_lit ''[Python] Calling C function to compress '' @ squote @ input_path
                           @ squote @ str_lit ''...'') w) (\<lambda>w1.
       case encode_utf8 input_path of
         Inl e \<Rightarrow> (Inl e, w1)
       | Inr c_input \<Rightarrow>
           (case encode_utf8 output_path of
              Inl e \<Rightarrow> (Inl e, w1)
            | Inr c_output \<Rightarrow>
                (case api_compress_file lib (c_char_p c_input) (c_char_p c_output) (files w1) of
                   (ret, fs) \<Rightarrow>
                     let w2 = w1\<lparr>files := fs,
                                 trace := trace w1 @
                                   [Foreign Api_compress_file (c_char_p c_input) (c_char_p c_output)]\<rparr>
                     in if sint ret = 0
                        then and_then (py_print (str_lit ''[Python] C compression successful.'') w2)
                               (\<lambda>w3. (Inr True, w3))
                        else and_then (py_print (str_lit ''[Python] C compression failed.'') w2)
                               (\<lambda>w3. (Inr False, w3)))))"

definition decompress :: "libhuffman \<Rightarrow> pystr \<Rightarrow> pystr \<Rightarrow> world \<Rightarrow> (py_exc + bool) \<times> world" where
  "decompress lib input_path output_path w =
     and_then (py_print (str_lit ''[Python] Calling C function to decompress '' @ squote @ input_path
                           @ squote @ str_lit ''...'') w) (\<lambda>w1.
       case encode_utf8 input_path of
         Inl e \<Rightarrow> (Inl e, w1)
       | Inr c_input \<Rightarrow>
           (case encode_utf8 output_path of
              Inl e \<Rightarrow> (Inl e, w1)
            | Inr c_output \<Rightarrow>
                (case api_decompress_file lib (c_char_p c_input) (c_char_p c_output) (files w1) of
                   (ret, fs) \<Rightarrow>
                     let w2 = w1\<lparr>files := fs,
                                 trace := trace w1 @
                                   [Foreign Api_decompress_file (c_char_p c_input) (c_char_p c_output)]\<rparr>
                     in if sint ret = 0
                        then and_then (py_print (str_lit ''[Python] C decompression successful.'') w2)
                               (\<lambda>w3. (Inr True, w3))
                        else and_then (py_print (str_lit ''[Python] C decompression failed.'') w2)
                               (\<lambda>w3. (Inr False, w3)))))"

section \<open>demo.py\<close>

definition test_files_dir :: "host \<Rightarrow> pystr" where
  "test_files_dir h = os_path_join h (demo_dir h) [str_lit ''..'', str_lit ''test_files'']"

definition input_file :: "host \<Rightarrow> pystr" where
  "input_file h = os_path_join h (test_files_dir h) [str_lit ''sample.txt'']"

definition compressed_file :: "host \<Rightarrow> pystr" where
  "compressed_file h = os_path_join h (test_files_dir h) [str_lit ''sample_py.huff'']"

definition restored_file :: "host \<Rightarrow> pystr" where
  "restored_file h = os_path_join h (test_files_dir h) [str_lit ''restored_py.txt'']"

text \<open>Step 3 of \<open>run_demo\<close>: the \<open>try\<close> block around \<open>filecmp.cmp\<close>.\<close>

definition verify :: "host \<Rightarrow> world \<Rightarrow> (py_exc + unit) \<times> world" where
  "verify h w =
     and_then (py_print (str_lit ''[Python] Verifying integrity of '' @ squote
                           @ restored_file h @ squote @ str_lit ''...'') w) (\<lambda>w1.
       let w2 = w1\<lparr>trace := trace w1 @ [FileCmp (input_file h) (restored_file h)]\<rparr>
       in case filecmp_cmp (files w2) (input_file h) (restored_file h) of
            Inr True \<Rightarrow> py_print (str_lit ''SUCCESS: Restored file is identical to the original.'') w2
          | Inr False \<Rightarrow> py_print (str_lit ''FAILURE: Restored file is different from the original.'') w2
          | Inl e \<Rightarrow> py_print (str_lit ''FAILURE: Output file was not created.'') w2)"

text \<open>Step 4 of \<open>run_demo\<close>.\<close>

definition cleanup :: "host \<Rightarrow> world \<Rightarrow> (py_exc + unit) \<times> world" where
  "cleanup h w =
     and_then (py_print (str_lit ''[Python] Cleaning up demo files...'') w) (\<lambda>w1.
       let w2 = (if os_path_exists (files w1) (compressed_file h)
                 then os_remove (compressed_file h) w1 else w1)
       in (Inr (),
           if os_path_exists (files w2) (restored_file h)
           then os_remove (restored_file h) w2 else w2))"

definition run_demo :: "host \<Rightarrow> libhuffman \<Rightarrow> world \<Rightarrow> (py_exc + unit) \<times> world" where
  "run_demo h lib w0 =
     and_then (py_print (str_lit ''--- Running Python CTypes Wrapper Demo ---'') w0) (\<lambda>w.
       if \<not> os_path_exists (files w) (input_file h) then
         and_then (py_print (str_lit ''Error: 'test_files/sample.txt' not found.'') w)
           (py_print (str_lit ''Please create it before running the demo.''))
       else
         case compress lib (input_file h) (compressed_file h) w of
           (Inl e, w1) \<Rightarrow> (Inl e, w1)
         | (Inr success_compress, w1) \<Rightarrow>
             if \<not> success_compress then
               py_print (str_lit ''Demo failed during compression.'') w1
             else
               (case decompress lib (compressed_file h) (restored_file h) w1 of
                  (Inl e, w2) \<Rightarrow> (Inl e, w2)
                | (Inr success_decompress, w2) \<Rightarrow>
                    if \<not> success_decompress then
                      py_print (str_lit ''Demo failed during decompression.'') w2
                    else and_then (verify h w2) (cleanup h)))"

text \<open>The \<open>lib_path\<close> of the \<open>__main__\<close> block of \<open>demo.py\<close>.\<close>

definition demo_lib_path :: "host \<Rightarrow> pystr" where
  "demo_lib_path h =
     os_path_join h (demo_dir h) [str_lit ''..'', str_lit ''bin'', str_lit ''libhuffman.so'']"

text \<open>
  Running \<open>demo.py\<close> as a script: line 1 imports \<open>wrapper\<close>, whose module body may end the
  process; then the \<open>__main__\<close> block.
\<close>

definition demo_main :: "host \<Rightarrow> world \<Rightarrow> (py_exc + unit) \<times> world" where
  "demo_main h w0 =
     (case wrapper_import h w0 of
        (Inl e, w) \<Rightarrow> (Inl e, w)
      | (Inr lib, w) \<Rightarrow>
          if \<not> os_path_exists (files w) (demo_lib_path h) then
            and_then (py_print (str_lit ''Error: 'bin/libhuffman.so' not found.'') w)
              (py_print (str_lit ''Please run 'make lib' or 'make all' in the root directory first.''))
          else run_demo h lib w)"

section \<open>Observing a run\<close>

fun is_foreign :: "event \<Rightarrow> bool" where
  "is_foreign (Foreign ep a b) = True"
| "is_foreign _ = False"

fun is_call :: "entry_point \<Rightarrow> event \<Rightarrow> bool" where
  "is_call ep (Foreign ep' a b) = (ep' = ep)"
| "is_call ep _ = False"

fun is_filecmp :: "event \<Rightarrow> bool" where
  "is_filecmp (FileCmp a b) = True"
| "is_filecmp _ = False"


fun is_remove :: "event \<Rightarrow> bool" where
  "is_remove (Remove p) = True"
| "is_remove _ = False"

text \<open>
  What a bridge call started in world \<open>w\<close> does apart from printing: its result, the file
  system it leaves and the foreign calls it made.
\<close>

definition observable ::
  "world \<Rightarrow> (py_exc + bool) \<times> world \<Rightarrow> (py_exc + bool) \<times> filesystem \<times> event list" where
  "observable w r =
     (fst r, files (snd r), filter is_foreign (drop (length (trace w)) (trace (snd r))))"

text \<open>
  The contract of one bridge operation in the words of the specification: encode both paths
  as UTF-8, NUL-terminated; invoke the bound entry point; status \<open>0\<close> is success, any other
  status failure. An encoding failure comes before the foreign call.
\<close>

definition bridge_contract ::
  "entry_point \<Rightarrow> native_fn \<Rightarrow> pystr \<Rightarrow> pystr \<Rightarrow> filesystem
     \<Rightarrow> (py_exc + bool) \<times> filesystem \<times> event list" where
  "bridge_contract ep f input_path output_path fs =
     (case encode_utf8 input_path of
        Inl e \<Rightarrow> (Inl e, fs, [])
      | Inr a \<Rightarrow>
          (case encode_utf8 output_path of
             Inl e \<Rightarrow> (Inl e, fs, [])
           | Inr b \<Rightarrow>
               (case f (a @ [0]) (b @ [0]) fs of
                  (status, fs') \<Rightarrow>
                    (Inr (status = 0), fs', [Foreign ep (a @ [0]) (b @ [0])]))))"

section \<open>Stub codecs and a concrete host\<close>

text \<open>
  Stand-ins for the native library with controlled status codes. \<open>copy_codec\<close> reads each
  buffer up to its NUL, copies the source file to the destination and returns \<open>0\<close>, or
  returns \<open>1\<close> when the source is missing; \<open>failing_codec\<close> returns \<open>-1\<close> and writes nothing.
  \<open>disk\<close> is a world with the given files, an empty trace and a strict \<open>sys.stdout\<close>.
\<close>

definition c_string :: "bytes \<Rightarrow> pystr" where
  "c_string b = map unat (takeWhile (\<lambda>x. x \<noteq> 0) b)"

definition copy_codec :: native_fn where
  "copy_codec src dst fs =
     (case fs (c_string src) of
        None \<Rightarrow> (1, fs)
      | Some c \<Rightarrow> (0, fs(c_string dst \<mapsto> c)))"

definition failing_codec :: native_fn where
  "failing_codec src dst fs = (- 1, fs)"

definition posix_host :: "pystr \<Rightarrow> native_fn \<Rightarrow> native_fn \<Rightarrow> host" where
  "posix_host platform fc fd =
     \<lparr>sys_platform = platform,
      wrapper_dir = str_lit ''/h/python'',
      demo_dir = str_lit ''/h/python'',
      os_path_join = posix_join,
      ctypes_CDLL =
        (\<lambda>p fs. Inr \<lparr>sym_api_compress_file = Some fc, sym_api_decompress_file = Some fd\<rparr>)\<rparr>"

definition disk :: "(string \<times> bytes) list \<Rightarrow> world" where
  "disk fs =
     \<lparr>files = map_of (map (\<lambda>(p, c). (str_lit p, c)) fs), trace = [], stdout_strict = True\<rparr>"

definition sample_disk :: world where
  "sample_disk = disk [(''/h/python/../test_files/sample.txt'', [1, 2, 3])]"

definition plain_ascii :: "pystr \<Rightarrow> bool" where
  "plain_ascii s = list_all (\<lambda>c. 0 < c \<and> c < 0x80) s"

text \<open>Three states of the \<open>bin\<close> directory, with no fixture.\<close>

definition dylib_disk :: world where
  "dylib_disk = disk [(''/h/python/../bin/libhuffman.dylib'', [0xCF, 0xFA])]"

definition both_libs_disk :: world where
  "both_libs_disk =
     disk [(''/h/python/../bin/libhuffman.dylib'', [0xCF, 0xFA]),
           (''/h/python/../bin/libhuffman.so'', [0x7F, 0x45])]"

definition so_disk :: world where
  "so_disk = disk [(''/h/python/../bin/libhuffman.so'', [0x7F, 0x45])]"

section \<open>Auxiliary facts\<close>

subsection \<open>Encoding\<close>

lemma utf8_char_isl: "isl (utf8_char c) = is_surrogate c"
  by (auto simp: utf8_char_def is_surrogate_def)

lemma utf8_char_Inl: "utf8_char c = Inl e \<Longrightarrow> e = UnicodeEncodeError"
  by (auto simp: utf8_char_def split: if_splits)

lemma encode_utf8_Inl: "encode_utf8 s = Inl e \<Longrightarrow> e = UnicodeEncodeError"
  by (induction s) (auto split: sum.splits dest: utf8_char_Inl)

lemma encode_utf8_isl: "isl (encode_utf8 s) = (\<exists>c\<in>set s. is_surrogate c)"
proof (induction s)
  case Nil
  show ?case by simp
next
  case (Cons c cs)
  show ?case
  proof (cases "utf8_char c")
    case (Inl e)
    then have "is_surrogate c" using utf8_char_isl [of c] by simp
    with Inl show ?thesis by simp
  next
    case (Inr b)
    then have "\<not> is_surrogate c" using utf8_char_isl [of c] by simp
    with Inr Cons show ?thesis by (cases "encode_utf8 cs") auto
  qed
qed

lemma encode_utf8_fails:
  "\<exists>c\<in>set s. is_surrogate c \<Longrightarrow> encode_utf8 s = Inl UnicodeEncodeError"
  using encode_utf8_isl [of s] encode_utf8_Inl [of s] by (cases "encode_utf8 s") auto

lemma encode_utf8_ascii: "plain_ascii s \<Longrightarrow> encode_utf8 s = Inr (map of_nat s)"
  by (induction s) (simp_all add: plain_ascii_def utf8_char_def)

lemma unat_octet: "c < 0x80 \<Longrightarrow> unat (of_nat c :: 8 word) = c"
  by (simp add: unsigned_of_nat take_bit_nat_eq_self)

lemma octet_nonzero: "0 < c \<Longrightarrow> c < 0x80 \<Longrightarrow> (of_nat c :: 8 word) \<noteq> 0"
  using unat_octet [of c] by (metis less_numeral_extra(3) unat_0)

lemma c_string_ascii: "plain_ascii s \<Longrightarrow> c_string (c_char_p (map of_nat s)) = s"
  by (induction s)
     (simp_all add: plain_ascii_def c_string_def c_char_p_def unat_octet octet_nonzero)

lemma copy_codec_ascii:
  "plain_ascii a \<Longrightarrow> plain_ascii b \<Longrightarrow>
   copy_codec (c_char_p (map of_nat a)) (c_char_p (map of_nat b)) fs =
     (case fs a of None \<Rightarrow> (1, fs) | Some c \<Rightarrow> (0, fs(b \<mapsto> c)))"
  by (simp add: copy_codec_def c_string_ascii split: option.split)

subsection \<open>Printing\<close>

lemma str_lit_no_surrogate: "\<not> list_ex is_surrogate (str_lit s)"
proof -
  have "\<not> is_surrogate (of_char c)" for c
  proof -
    have "(of_char c :: nat) < 256" by simp
    then show ?thesis unfolding is_surrogate_def by linarith
  qed
  then show ?thesis by (simp add: str_lit_def list_ex_iff)
qed

lemma printable_lit: "printable w (str_lit s)"
  by (simp add: printable_def str_lit_no_surrogate)

lemma printable_quoted:
  "printable w (str_lit a @ squote @ p @ squote @ str_lit b) = printable w p"
  using str_lit_no_surrogate [of a] str_lit_no_surrogate [of b]
  by (simp add: printable_def squote_def is_surrogate_def list_ex_iff) blast


lemma printable_encoded: "encode_utf8 p = Inr c \<Longrightarrow> printable w p"
  using encode_utf8_isl [of p] by (simp add: printable_def list_ex_iff)

lemma unprintable_unencodable: "\<not> printable w p \<Longrightarrow> encode_utf8 p = Inl UnicodeEncodeError"
  by (rule encode_utf8_fails) (simp add: printable_def list_ex_iff)

lemma py_print_lit: "py_print (str_lit s) w = (Inr (), emit (str_lit s) w)"
  by (simp add: py_print_def printable_lit)

lemma and_then_simps:
  "and_then (Inl e, w) k = (Inl e, w)"
  "and_then (Inr u, w) k = k w"
  by (simp_all add: and_then_def)

lemma emit_simps:
  "files (emit s w) = files w"
  "trace (emit s w) = trace w @ [Print s]"
  "stdout_strict (emit s w) = stdout_strict w"
  by (simp_all add: emit_def)

lemmas print_simps = py_print_lit and_then_simps emit_simps

subsection \<open>The two bridge operations\<close>

lemma compress_called:
  assumes "encode_utf8 i = Inr ci" "encode_utf8 p = Inr cp"
    and "api_compress_file lib (c_char_p ci) (c_char_p cp) (files w) = (r, fs)"
  shows "compress lib i p w =
    (Inr (r = 0),
     w\<lparr>files := fs,
       trace := trace w @
         [Print (str_lit ''[Python] Calling C function to compress '' @ squote @ i @ squote
                   @ str_lit ''...''),
          Foreign Api_compress_file (c_char_p ci) (c_char_p cp),
          Print (if r = 0 then str_lit ''[Python] C compression successful.''
                 else str_lit ''[Python] C compression failed.'')]\<rparr>)"
  using assms printable_encoded [OF assms(1), of w]
  by (simp add: compress_def py_print_def printable_quoted printable_lit and_then_simps emit_def
      Let_def signed_eq_0_iff)

lemma decompress_called:
  assumes "encode_utf8 i = Inr ci" "encode_utf8 p = Inr cp"
    and "api_decompress_file lib (c_char_p ci) (c_char_p cp) (files w) = (r, fs)"
  shows "decompress lib i p w =
    (Inr (r = 0),
     w\<lparr>files := fs,
       trace := trace w @
         [Print (str_lit ''[Python] Calling C function to decompress '' @ squote @ i @ squote
                   @ str_lit ''...''),
          Foreign Api_decompress_file (c_char_p ci) (c_char_p cp),
          Print (if r = 0 then str_lit ''[Python] C decompression successful.''
                 else str_lit ''[Python] C decompression failed.'')]\<rparr>)"
  using assms printable_encoded [OF assms(1), of w]
  by (simp add: decompress_def py_print_def printable_quoted printable_lit and_then_simps emit_def
      Let_def signed_eq_0_iff)

lemma compress_unencodable:
  assumes "encode_utf8 i = Inl e \<or> encode_utf8 p = Inl e'"
  shows "compress lib i p w =
    (Inl UnicodeEncodeError,
     if printable w i
     then emit (str_lit ''[Python] Calling C function to compress '' @ squote @ i @ squote
                  @ str_lit ''...'') w
     else w)"
  using assms
  by (cases "encode_utf8 i"; cases "encode_utf8 p")
     (auto simp: compress_def py_print_def printable_quoted and_then_simps dest: encode_utf8_Inl)

lemma decompress_unencodable:
  assumes "encode_utf8 i = Inl e \<or> encode_utf8 p = Inl e'"
  shows "decompress lib i p w =
    (Inl UnicodeEncodeError,
     if printable w i
     then emit (str_lit ''[Python] Calling C function to decompress '' @ squote @ i @ squote
                  @ str_lit ''...'') w
     else w)"
  using assms
  by (cases "encode_utf8 i"; cases "encode_utf8 p")
     (auto simp: decompress_def py_print_def printable_quoted and_then_simps dest: encode_utf8_Inl)

lemma encode_cases:
  obtains (called) ci cp where "encode_utf8 i = Inr ci" "encode_utf8 p = Inr cp"
  | (raised) e e' where "encode_utf8 i = Inl e \<or> encode_utf8 p = Inl e'"
  by (cases "encode_utf8 i"; cases "encode_utf8 p") auto

lemma compress_fst:
  assumes "encode_utf8 i = Inr ci" "encode_utf8 p = Inr cp"
  shows "fst (compress lib i p w) =
           Inr (fst (api_compress_file lib (c_char_p ci) (c_char_p cp) (files w)) = 0)"
    and "files (snd (compress lib i p w)) =
           snd (api_compress_file lib (c_char_p ci) (c_char_p cp) (files w))"
  using compress_called [OF assms, of lib w]
  by (cases "api_compress_file lib (c_char_p ci) (c_char_p cp) (files w)"; simp)+

lemma decompress_fst:
  assumes "encode_utf8 i = Inr ci" "encode_utf8 p = Inr cp"
  shows "fst (decompress lib i p w) =
           Inr (fst (api_decompress_file lib (c_char_p ci) (c_char_p cp) (files w)) = 0)"
    and "files (snd (decompress lib i p w)) =
           snd (api_decompress_file lib (c_char_p ci) (c_char_p cp) (files w))"
  using decompress_called [OF assms, of lib w]
  by (cases "api_decompress_file lib (c_char_p ci) (c_char_p cp) (files w)"; simp)+

lemma compress_new_events:
  assumes "compress lib i p w = (r, w1)"
  shows "\<exists>evs. trace w1 = trace w @ evs \<and>
           (\<forall>e\<in>set evs. \<not> is_call Api_decompress_file e \<and> \<not> is_filecmp e)"
proof (cases rule: encode_cases [of i p])
  case (called ci cp)
  obtain ret fs where
    "api_compress_file lib (c_char_p ci) (c_char_p cp) (files w) = (ret, fs)"
    by (cases "api_compress_file lib (c_char_p ci) (c_char_p cp) (files w)")
  from compress_called [OF called this] assms show ?thesis by auto
next
  case (raised e e')
  from compress_unencodable [OF raised, of lib w] assms show ?thesis
    by (auto simp: emit_def split: if_splits)
qed

lemma compress_no_remove:
  "filter is_remove (trace (snd (compress lib i p w))) = filter is_remove (trace w)"
proof (cases rule: encode_cases [of i p])
  case (called ci cp)
  obtain ret fs where
    "api_compress_file lib (c_char_p ci) (c_char_p cp) (files w) = (ret, fs)"
    by (cases "api_compress_file lib (c_char_p ci) (c_char_p cp) (files w)")
  from compress_called [OF called this] show ?thesis by simp
next
  case (raised e e')
  from compress_unencodable [OF raised, of lib w] show ?thesis by (simp add: emit_def)
qed

lemma decompress_no_remove:
  "filter is_remove (trace (snd (decompress lib i p w))) = filter is_remove (trace w)"
proof (cases rule: encode_cases [of i p])
  case (called ci cp)
  obtain ret fs where
    "api_decompress_file lib (c_char_p ci) (c_char_p cp) (files w) = (ret, fs)"
    by (cases "api_decompress_file lib (c_char_p ci) (c_char_p cp) (files w)")
  from decompress_called [OF called this] show ?thesis by simp
next
  case (raised e e')
  from decompress_unencodable [OF raised, of lib w] show ?thesis by (simp add: emit_def)
qed

subsection \<open>The concrete host\<close>

lemmas path_eval = str_lit_def squote_def startswith_def endswith_def posix_host_def
  test_files_dir_def input_file_def compressed_file_def restored_file_def lib_path_def
  lib_name_def demo_lib_path_def

lemma paths_posix:
  "input_file (posix_host pf fc fd) = str_lit ''/h/python/../test_files/sample.txt''"
  "compressed_file (posix_host pf fc fd) = str_lit ''/h/python/../test_files/sample_py.huff''"
  "restored_file (posix_host pf fc fd) = str_lit ''/h/python/../test_files/restored_py.txt''"
  by (simp_all add: path_eval)

lemma paths_ascii:
  "plain_ascii (input_file (posix_host pf fc fd))"
  "plain_ascii (compressed_file (posix_host pf fc fd))"
  "plain_ascii (restored_file (posix_host pf fc fd))"
  by (simp_all add: paths_posix) (simp_all add: plain_ascii_def str_lit_def)

lemma paths_distinct:
  "input_file (posix_host pf fc fd) \<noteq> compressed_file (posix_host pf fc fd)"
  "input_file (posix_host pf fc fd) \<noteq> restored_file (posix_host pf fc fd)"
  "compressed_file (posix_host pf fc fd) \<noteq> restored_file (posix_host pf fc fd)"
  by (simp_all add: paths_posix) (simp_all add: str_lit_def)

lemma sample_disk_files:
  "files sample_disk (input_file (posix_host pf fc fd)) = Some [1, 2, 3]"
  "files sample_disk (compressed_file (posix_host pf fc fd)) = None"
  "files sample_disk (restored_file (posix_host pf fc fd)) = None"
  "trace sample_disk = []"
  "stdout_strict sample_disk"
  using paths_distinct [of pf fc fd] by (simp_all add: sample_disk_def disk_def paths_posix)

lemma compress_fails_scenario:
  "fst (compress \<lparr>api_compress_file = failing_codec, api_decompress_file = copy_codec\<rparr>
         (input_file (posix_host pf fc fd)) (compressed_file (posix_host pf fc fd)) w) = Inr False"
  by (simp add: compress_fst(1) [OF encode_utf8_ascii [OF paths_ascii(1)]
        encode_utf8_ascii [OF paths_ascii(2)]] failing_codec_def)

subsection \<open>Scenarios with the stub codecs\<close>

lemma compress_copy_scenario:
  assumes "files w (input_file (posix_host pf fc fd)) = Some c"
  shows "fst (compress \<lparr>api_compress_file = copy_codec, api_decompress_file = g\<rparr>
           (input_file (posix_host pf fc fd)) (compressed_file (posix_host pf fc fd)) w) = Inr True"
    and "files (snd (compress \<lparr>api_compress_file = copy_codec, api_decompress_file = g\<rparr>
           (input_file (posix_host pf fc fd)) (compressed_file (posix_host pf fc fd)) w)) =
         (files w)(compressed_file (posix_host pf fc fd) \<mapsto> c)"
  using assms
  by (simp_all add: compress_fst [OF encode_utf8_ascii [OF paths_ascii(1)]
        encode_utf8_ascii [OF paths_ascii(2)]] copy_codec_ascii paths_ascii)

lemma decompress_copy_scenario:
  assumes "files w (compressed_file (posix_host pf fc fd)) = Some c"
  shows "fst (decompress \<lparr>api_compress_file = g, api_decompress_file = copy_codec\<rparr>
           (compressed_file (posix_host pf fc fd)) (restored_file (posix_host pf fc fd)) w) = Inr True"
    and "files (snd (decompress \<lparr>api_compress_file = g, api_decompress_file = copy_codec\<rparr>
           (compressed_file (posix_host pf fc fd)) (restored_file (posix_host pf fc fd)) w)) =
         (files w)(restored_file (posix_host pf fc fd) \<mapsto> c)"
  using assms
  by (simp_all add: decompress_fst [OF encode_utf8_ascii [OF paths_ascii(2)]
        encode_utf8_ascii [OF paths_ascii(3)]] copy_codec_ascii paths_ascii)

lemma decompress_fails_scenario:
  "fst (decompress \<lparr>api_compress_file = g, api_decompress_file = failing_codec\<rparr>
         (compressed_file (posix_host pf fc fd)) (restored_file (posix_host pf fc fd)) w) = Inr False"
  "files (snd (decompress \<lparr>api_compress_file = g, api_decompress_file = failing_codec\<rparr>
         (compressed_file (posix_host pf fc fd)) (restored_file (posix_host pf fc fd)) w)) = files w"
  by (simp_all add: decompress_fst [OF encode_utf8_ascii [OF paths_ascii(2)]
        encode_utf8_ascii [OF paths_ascii(3)]] failing_codec_def)

lemma bridge_Inr_encoded:
  "compress lib i p w = (Inr b, w') \<Longrightarrow> \<exists>ci cp. encode_utf8 i = Inr ci \<and> encode_utf8 p = Inr cp"
  "decompress lib i p w = (Inr b, w') \<Longrightarrow> \<exists>ci cp. encode_utf8 i = Inr ci \<and> encode_utf8 p = Inr cp"
  using compress_unencodable [of i _ p _ lib w] decompress_unencodable [of i _ p _ lib w]
  by (cases rule: encode_cases [of i p]; auto)+

lemma run_demo_decompress_fails:
  assumes "os_path_exists (files w) (input_file h)"
    and "compress lib (input_file h) (compressed_file h)
           (emit (str_lit ''--- Running Python CTypes Wrapper Demo ---'') w) = (Inr True, w1)"
    and "decompress lib (compressed_file h) (restored_file h) w1 = (Inr False, w2)"
  shows "run_demo h lib w = (Inr (), emit (str_lit ''Demo failed during decompression.'') w2)"
  using assms by (simp add: run_demo_def print_simps)

subsection \<open>The verify step\<close>

lemma verify_result:
  assumes "printable w (restored_file h)"
  shows "verify h w =
    (Inr (),
     w\<lparr>trace := trace w @
       [Print (str_lit ''[Python] Verifying integrity of '' @ squote @ restored_file h @ squote
                @ str_lit ''...''),
        FileCmp (input_file h) (restored_file h),
        Print (case files w (restored_file h) of
                 None \<Rightarrow> str_lit ''FAILURE: Output file was not created.''
               | Some r \<Rightarrow>
                   (case files w (input_file h) of
                      None \<Rightarrow> str_lit ''FAILURE: Output file was not created.''
                    | Some a \<Rightarrow>
                        if a = r then str_lit ''SUCCESS: Restored file is identical to the original.''
                        else str_lit ''FAILURE: Restored file is different from the original.''))]\<rparr>)"
  using assms
  by (simp add: verify_def filecmp_cmp_def py_print_def printable_quoted printable_lit
      and_then_simps emit_def Let_def split: option.splits)

lemma cleanup_returns: "fst (cleanup h w) = Inr ()"
  by (simp add: cleanup_def print_simps Let_def)

lemma outcome_messages_distinct:
  "distinct [str_lit ''SUCCESS: Restored file is identical to the original.'',
             str_lit ''FAILURE: Restored file is different from the original.'',
             str_lit ''FAILURE: Output file was not created.'',
             str_lit ''Demo failed during compression.'',
             str_lit ''Demo failed during decompression.'']"
  by (simp add: str_lit_def)

subsection \<open>The module body\<close>

lemma wrapper_import_Inr:
  assumes "wrapper_import h w = (Inr lib, w1)"
  shows "os_path_exists (files w) (lib_path h)" and "files w1 = files w"
    and "trace w1 = trace w @ [Load (lib_path h)]"
  using assms
  by (auto simp: wrapper_import_def py_print_def and_then_def Let_def
      split: sum.splits option.splits if_splits)

lemma libs_posix:
  "lib_path (posix_host (str_lit ''darwin'') fc fd) = str_lit ''/h/python/../bin/libhuffman.dylib''"
  "lib_path (posix_host (str_lit ''freebsd13'') fc fd) = str_lit ''/h/python/../bin/libhuffman.so''"
  "lib_path (posix_host (str_lit ''sunos5'') fc fd) = str_lit ''/h/python/../bin/libhuffman.so''"
  "lib_path (posix_host (str_lit ''linux'') fc fd) = str_lit ''/h/python/../bin/libhuffman.so''"
  "demo_lib_path (posix_host pf fc fd) = str_lit ''/h/python/../bin/libhuffman.so''"
  by (simp_all add: path_eval)

section \<open>The bridge: status codes and encoding\<close>

text \<open>
  Claim C3. Whenever both paths encode, so that the bound entry point is invoked,
  \<open>compress\<close> returns \<open>True\<close> exactly when the entry point returns the integer \<open>0\<close> and
  \<open>False\<close> for every other status, whichever it is; \<open>decompress\<close> maps the status of its
  own entry point in the same way.
\<close>

theorem status_zero_iff_true:
  assumes "encode_utf8 input_path = Inr c_input"
    and "encode_utf8 output_path = Inr c_output"
  shows "fst (compress lib input_path output_path w) =
           Inr (sint (fst (api_compress_file lib (c_char_p c_input) (c_char_p c_output)
                             (files w))) = 0)
       \<and> fst (decompress lib input_path output_path w) =
           Inr (sint (fst (api_decompress_file lib (c_char_p c_input) (c_char_p c_output)
                             (files w))) = 0)"
  by (simp add: compress_fst(1) [OF assms] decompress_fst(1) [OF assms] signed_eq_0_iff)

theorem status_zero_iff_true_witness:
  "encode_utf8 (str_lit ''a'') = Inr [97] \<and> encode_utf8 (str_lit ''b'') = Inr [98]
   \<and> fst (compress \<lparr>api_compress_file = copy_codec, api_decompress_file = failing_codec\<rparr>
            (str_lit ''a'') (str_lit ''b'') (disk [(''a'', [7])])) = Inr True
   \<and> fst (decompress \<lparr>api_compress_file = copy_codec, api_decompress_file = failing_codec\<rparr>
            (str_lit ''a'') (str_lit ''b'') (disk [(''a'', [7])])) = Inr False"
proof -
  have e: "encode_utf8 (str_lit ''a'') = Inr [97]" "encode_utf8 (str_lit ''b'') = Inr [98]"
    by (simp_all add: str_lit_def utf8_char_def)
  have c: "c_string (c_char_p [97]) = str_lit ''a''"
    by (simp add: c_string_def c_char_p_def str_lit_def)
  show ?thesis
    using e status_zero_iff_true [OF e,
        of "\<lparr>api_compress_file = copy_codec, api_decompress_file = failing_codec\<rparr>"
        "disk [(''a'', [7])]"]
    by (simp add: copy_codec_def failing_codec_def c disk_def)
qed

text \<open>
  Claim C8. When either path holds a code point that UTF-8 cannot represent (a surrogate),
  \<open>compress\<close> and \<open>decompress\<close> end with \<open>UnicodeEncodeError\<close> before the entry point is
  reached: either \<open>print\<close> already raises on the first line (a strict \<open>sys.stdout\<close> and a
  surrogate in the input path; nothing is printed), or the line is printed and
  \<open>str.encode\<close> raises. In both cases the file system is untouched and no foreign call is
  added to the trace, so no octets at all cross the boundary.
\<close>

theorem unencodable_path_not_passed:
  assumes "\<exists>c\<in>set input_path \<union> set output_path. is_surrogate c"
  shows "compress lib input_path output_path w =
           (Inl UnicodeEncodeError,
            if printable w input_path
            then emit (str_lit ''[Python] Calling C function to compress '' @ squote @ input_path
                         @ squote @ str_lit ''...'') w
            else w)
       \<and> decompress lib input_path output_path w =
           (Inl UnicodeEncodeError,
            if printable w input_path
            then emit (str_lit ''[Python] Calling C function to decompress '' @ squote
                         @ input_path @ squote @ str_lit ''...'') w
            else w)
       \<and> files (snd (compress lib input_path output_path w)) = files w
       \<and> files (snd (decompress lib input_path output_path w)) = files w
       \<and> filter is_foreign (trace (snd (compress lib input_path output_path w))) =
           filter is_foreign (trace w)
       \<and> filter is_foreign (trace (snd (decompress lib input_path output_path w))) =
           filter is_foreign (trace w)"
proof -
  from assms have "(\<exists>c\<in>set input_path. is_surrogate c) \<or> (\<exists>c\<in>set output_path. is_surrogate c)"
    by auto
  then have e: "encode_utf8 input_path = Inl UnicodeEncodeError
      \<or> encode_utf8 output_path = Inl UnicodeEncodeError"
    using encode_utf8_fails by blast
  show ?thesis
    by (simp add: compress_unencodable [OF e] decompress_unencodable [OF e] emit_simps)
qed

theorem unencodable_path_not_passed_witness:
  "(\<exists>c\<in>set [0x61, 0xDC80] \<union> set (str_lit ''b''). is_surrogate c)
   \<and> compress \<lparr>api_compress_file = copy_codec, api_decompress_file = copy_codec\<rparr>
        [0x61, 0xDC80] (str_lit ''b'') (disk [(''a'', [7])])
       = (Inl UnicodeEncodeError, disk [(''a'', [7])])
   \<and> filter is_foreign
        (trace (snd (decompress \<lparr>api_compress_file = copy_codec, api_decompress_file = copy_codec\<rparr>
            [0x61, 0xDC80] (str_lit ''b'') (disk [(''a'', [7])])))) = []"
proof -
  have s: "\<exists>c\<in>set [0x61, 0xDC80] \<union> set (str_lit ''b''). is_surrogate c"
    by (simp add: is_surrogate_def)
  have p: "\<not> printable (disk [(''a'', [7])]) [0x61, 0xDC80]"
    by (simp add: printable_def disk_def is_surrogate_def)
  note r = unencodable_path_not_passed [OF s,
      of "\<lparr>api_compress_file = copy_codec, api_decompress_file = copy_codec\<rparr>"
      "disk [(''a'', [7])]"]
  have r1: "compress \<lparr>api_compress_file = copy_codec, api_decompress_file = copy_codec\<rparr>
        [0x61, 0xDC80] (str_lit ''b'') (disk [(''a'', [7])])
       = (Inl UnicodeEncodeError, disk [(''a'', [7])])"
    using r [THEN conjunct1] p by simp
  have r2: "filter is_foreign
        (trace (snd (decompress \<lparr>api_compress_file = copy_codec, api_decompress_file = copy_codec\<rparr>
            [0x61, 0xDC80] (str_lit ''b'') (disk [(''a'', [7])])))) = []"
    using r [THEN conjunct2, THEN conjunct2, THEN conjunct2, THEN conjunct2, THEN conjunct2]
    by (simp add: disk_def)
  from s r1 r2 show ?thesis by blast
qed

section \<open>The harness: aborts\<close>

text \<open>
  Claim C5. When the fixture \<open>sample.txt\<close> does not exist, \<open>run_demo\<close> prints its banner and
  the two lines of the "not found" message and returns: no foreign call is added to the
  trace, so neither \<open>compress\<close> nor \<open>decompress\<close> reaches the library.
\<close>

theorem missing_fixture_aborts:
  assumes "\<not> os_path_exists (files w) (input_file h)"
  shows "run_demo h lib w =
           (Inr (),
            w\<lparr>trace := trace w @
               [Print (str_lit ''--- Running Python CTypes Wrapper Demo ---''),
                Print (str_lit ''Error: 'test_files/sample.txt' not found.''),
                Print (str_lit ''Please create it before running the demo.'')]\<rparr>)
       \<and> filter is_foreign (trace (snd (run_demo h lib w))) = filter is_foreign (trace w)"
  using assms by (simp add: run_demo_def print_simps emit_def)

theorem missing_fixture_aborts_witness:
  "\<not> os_path_exists (files (disk []))
       (input_file (posix_host (str_lit ''linux'') copy_codec copy_codec))
   \<and> fst (run_demo (posix_host (str_lit ''linux'') copy_codec copy_codec)
            \<lparr>api_compress_file = copy_codec, api_decompress_file = copy_codec\<rparr> (disk [])) = Inr ()
   \<and> filter is_foreign
        (trace (snd (run_demo (posix_host (str_lit ''linux'') copy_codec copy_codec)
            \<lparr>api_compress_file = copy_codec, api_decompress_file = copy_codec\<rparr> (disk [])))) = []"
proof -
  have a: "\<not> os_path_exists (files (disk []))
             (input_file (posix_host (str_lit ''linux'') copy_codec copy_codec))"
    by (simp add: os_path_exists_def disk_def)
  show ?thesis
    using a missing_fixture_aborts [OF a,
        of "\<lparr>api_compress_file = copy_codec, api_decompress_file = copy_codec\<rparr>"]
    by (simp add: disk_def)
qed

text \<open>
  Claim C4. When the fixture exists and the \<open>compress\<close> call returns \<open>False\<close>, \<open>run_demo\<close>
  prints "Demo failed during compression." and returns: the run adds no call of
  \<open>api_decompress_file\<close> and no \<open>filecmp.cmp\<close> to the trace.
\<close>

theorem compress_failure_aborts:
  assumes "os_path_exists (files w) (input_file h)"
    and "compress lib (input_file h) (compressed_file h)
           (emit (str_lit ''--- Running Python CTypes Wrapper Demo ---'') w) = (Inr False, w1)"
  shows "run_demo h lib w = (Inr (), emit (str_lit ''Demo failed during compression.'') w1)
       \<and> filter (is_call Api_decompress_file) (trace (snd (run_demo h lib w)))
           = filter (is_call Api_decompress_file) (trace w)
       \<and> filter is_filecmp (trace (snd (run_demo h lib w))) = filter is_filecmp (trace w)"
proof -
  have run: "run_demo h lib w = (Inr (), emit (str_lit ''Demo failed during compression.'') w1)"
    using assms by (simp add: run_demo_def print_simps)
  from compress_new_events [OF assms(2)] obtain evs where
    evs: "trace w1 = trace w @ Print (str_lit ''--- Running Python CTypes Wrapper Demo ---'') # evs"
      "\<forall>e\<in>set evs. \<not> is_call Api_decompress_file e \<and> \<not> is_filecmp e"
    by (auto simp: emit_def)
  show ?thesis using run evs by (simp add: emit_def)
qed

theorem compress_failure_aborts_witness:
  "os_path_exists (files sample_disk)
     (input_file (posix_host (str_lit ''linux'') failing_codec copy_codec))
   \<and> fst (compress \<lparr>api_compress_file = failing_codec, api_decompress_file = copy_codec\<rparr>
         (input_file (posix_host (str_lit ''linux'') failing_codec copy_codec))
         (compressed_file (posix_host (str_lit ''linux'') failing_codec copy_codec))
         (emit (str_lit ''--- Running Python CTypes Wrapper Demo ---'') sample_disk)) = Inr False
   \<and> fst (run_demo (posix_host (str_lit ''linux'') failing_codec copy_codec)
         \<lparr>api_compress_file = failing_codec, api_decompress_file = copy_codec\<rparr> sample_disk) = Inr ()
   \<and> filter (is_call Api_decompress_file)
        (trace (snd (run_demo (posix_host (str_lit ''linux'') failing_codec copy_codec)
         \<lparr>api_compress_file = failing_codec, api_decompress_file = copy_codec\<rparr> sample_disk))) = []
   \<and> filter is_filecmp
        (trace (snd (run_demo (posix_host (str_lit ''linux'') failing_codec copy_codec)
         \<lparr>api_compress_file = failing_codec, api_decompress_file = copy_codec\<rparr> sample_disk))) = []"
proof -
  let ?h = "posix_host (str_lit ''linux'') failing_codec copy_codec"
  let ?lib = "\<lparr>api_compress_file = failing_codec, api_decompress_file = copy_codec\<rparr>"
  let ?c = "compress ?lib (input_file ?h) (compressed_file ?h)
              (emit (str_lit ''--- Running Python CTypes Wrapper Demo ---'') sample_disk)"
  have a: "os_path_exists (files sample_disk) (input_file ?h)"
    by (simp add: os_path_exists_def sample_disk_files)
  have f: "fst ?c = Inr False" by (rule compress_fails_scenario)
  then have b: "?c = (Inr False, snd ?c)" by (metis prod.collapse)
  note r = compress_failure_aborts [OF a b]
  have r1: "fst (run_demo ?h ?lib sample_disk) = Inr ()"
    using r by simp
  have r2: "filter (is_call Api_decompress_file) (trace (snd (run_demo ?h ?lib sample_disk))) = []"
    using r [THEN conjunct2, THEN conjunct1] by (simp add: sample_disk_files)
  have r3: "filter is_filecmp (trace (snd (run_demo ?h ?lib sample_disk))) = []"
    using r [THEN conjunct2, THEN conjunct2] by (simp add: sample_disk_files)
  from a f r1 r2 r3 show ?thesis by blast
qed

section \<open>Initialization of the bridge\<close>



section \<open>The bridge: one contract, two entry points\<close>

text \<open>
  Claim C9. Apart from the lines they print, \<open>compress\<close> and \<open>decompress\<close> both do
  what the one contract \<open>bridge_contract\<close> says: the same UTF-8 encoding of both paths, each
  NUL-terminated, the same reading of the status (\<open>0\<close> is \<open>True\<close>, anything else \<open>False\<close>), the
  same failure before the call when a path does not encode. They differ only in the entry
  point invoked.
\<close>

theorem decompress_symmetric_to_compress:
  "observable w (compress lib input_path output_path w) =
     bridge_contract Api_compress_file (api_compress_file lib) input_path output_path (files w)
   \<and> observable w (decompress lib input_path output_path w) =
     bridge_contract Api_decompress_file (api_decompress_file lib) input_path output_path (files w)"
proof (cases rule: encode_cases [of input_path output_path])
  case (called ci cp)
  obtain r fs r' fs' where
    n: "api_compress_file lib (c_char_p ci) (c_char_p cp) (files w) = (r, fs)"
       "api_decompress_file lib (c_char_p ci) (c_char_p cp) (files w) = (r', fs')"
    by (cases "api_compress_file lib (c_char_p ci) (c_char_p cp) (files w)";
        cases "api_decompress_file lib (c_char_p ci) (c_char_p cp) (files w)") auto
  from n show ?thesis
    using called
    by (simp add: compress_called [OF called n(1)] decompress_called [OF called n(2)]
        observable_def bridge_contract_def c_char_p_def)
next
  case (raised e e')
  then have "encode_utf8 input_path = Inl UnicodeEncodeError
      \<or> (\<exists>a. encode_utf8 input_path = Inr a \<and> encode_utf8 output_path = Inl UnicodeEncodeError)"
    by (cases "encode_utf8 input_path") (auto dest: encode_utf8_Inl)
  then show ?thesis
    by (auto simp: compress_unencodable [OF raised] decompress_unencodable [OF raised]
        observable_def bridge_contract_def emit_def)
qed

section \<open>The harness: verify and cleanup\<close>

text \<open>
  Claim C7. In a run where the fixture exists and both bridge calls return \<open>True\<close>,
  \<open>run_demo\<close> returns normally (no exception leaves it) after the verify and cleanup steps.
  The verify step leaves the file system as it is, calls \<open>filecmp.cmp\<close> once and prints
  exactly one outcome line: "identical" when both files exist with equal contents, octet
  for octet; "different" when both exist and the contents differ; "not created" when
  \<open>filecmp.cmp\<close> raises \<open>FileNotFoundError\<close>, that is when the restored file is missing (or the
  fixture has vanished since the precondition check). The three lines differ from one
  another and from the two lines that report a failed bridge call.
\<close>

theorem verify_three_outcomes:
  assumes "os_path_exists (files w) (input_file h)"
    and "compress lib (input_file h) (compressed_file h)
           (emit (str_lit ''--- Running Python CTypes Wrapper Demo ---'') w) = (Inr True, w1)"
    and "decompress lib (compressed_file h) (restored_file h) w1 = (Inr True, w2)"
  shows "run_demo h lib w = (Inr (), snd (cleanup h (snd (verify h w2))))
     \<and> fst (verify h w2) = Inr ()
     \<and> files (snd (verify h w2)) = files w2
     \<and> trace (snd (verify h w2)) = trace w2 @
         [Print (str_lit ''[Python] Verifying integrity of '' @ squote @ restored_file h @ squote
                  @ str_lit ''...''),
          FileCmp (input_file h) (restored_file h),
          Print (case files w2 (restored_file h) of
                   None \<Rightarrow> str_lit ''FAILURE: Output file was not created.''
                 | Some r \<Rightarrow>
                     (case files w2 (input_file h) of
                        None \<Rightarrow> str_lit ''FAILURE: Output file was not created.''
                      | Some a \<Rightarrow>
                          if a = r
                          then str_lit ''SUCCESS: Restored file is identical to the original.''
                          else str_lit ''FAILURE: Restored file is different from the original.''))]
     \<and> distinct [str_lit ''SUCCESS: Restored file is identical to the original.'',
                 str_lit ''FAILURE: Restored file is different from the original.'',
                 str_lit ''FAILURE: Output file was not created.'',
                 str_lit ''Demo failed during compression.'',
                 str_lit ''Demo failed during decompression.'']"
proof -
  from bridge_Inr_encoded(2) [OF assms(3)] obtain cp where "encode_utf8 (restored_file h) = Inr cp"
    by blast
  then have p: "printable w2 (restored_file h)" by (rule printable_encoded)
  note v = verify_result [OF p]
  have c: "cleanup h (snd (verify h w2)) = (Inr (), snd (cleanup h (snd (verify h w2))))"
    using cleanup_returns [of h "snd (verify h w2)"] by (metis prod.collapse)
  have "run_demo h lib w = (Inr (), snd (cleanup h (snd (verify h w2))))"
    using assms c by (simp add: run_demo_def print_simps v)
  then show ?thesis
    using outcome_messages_distinct by (simp add: v)
qed

theorem verify_three_outcomes_witness:
  "os_path_exists (files sample_disk)
     (input_file (posix_host (str_lit ''linux'') copy_codec copy_codec))
   \<and> fst (compress \<lparr>api_compress_file = copy_codec, api_decompress_file = copy_codec\<rparr>
         (input_file (posix_host (str_lit ''linux'') copy_codec copy_codec))
         (compressed_file (posix_host (str_lit ''linux'') copy_codec copy_codec))
         (emit (str_lit ''--- Running Python CTypes Wrapper Demo ---'') sample_disk)) = Inr True
   \<and> fst (decompress \<lparr>api_compress_file = copy_codec, api_decompress_file = copy_codec\<rparr>
         (compressed_file (posix_host (str_lit ''linux'') copy_codec copy_codec))
         (restored_file (posix_host (str_lit ''linux'') copy_codec copy_codec))
         (snd (compress \<lparr>api_compress_file = copy_codec, api_decompress_file = copy_codec\<rparr>
           (input_file (posix_host (str_lit ''linux'') copy_codec copy_codec))
           (compressed_file (posix_host (str_lit ''linux'') copy_codec copy_codec))
           (emit (str_lit ''--- Running Python CTypes Wrapper Demo ---'') sample_disk)))) = Inr True
   \<and> fst (run_demo (posix_host (str_lit ''linux'') copy_codec copy_codec)
         \<lparr>api_compress_file = copy_codec, api_decompress_file = copy_codec\<rparr> sample_disk) = Inr ()
   \<and> last (trace (snd (verify (posix_host (str_lit ''linux'') copy_codec copy_codec)
        (snd (decompress \<lparr>api_compress_file = copy_codec, api_decompress_file = copy_codec\<rparr>
         (compressed_file (posix_host (str_lit ''linux'') copy_codec copy_codec))
         (restored_file (posix_host (str_lit ''linux'') copy_codec copy_codec))
         (snd (compress \<lparr>api_compress_file = copy_codec, api_decompress_file = copy_codec\<rparr>
           (input_file (posix_host (str_lit ''linux'') copy_codec copy_codec))
           (compressed_file (posix_host (str_lit ''linux'') copy_codec copy_codec))
           (emit (str_lit ''--- Running Python CTypes Wrapper Demo ---'') sample_disk))))))))
       = Print (str_lit ''SUCCESS: Restored file is identical to the original.'')"
proof -
  let ?h = "posix_host (str_lit ''linux'') copy_codec copy_codec"
  let ?lib = "\<lparr>api_compress_file = copy_codec, api_decompress_file = copy_codec\<rparr>"
  let ?wb = "emit (str_lit ''--- Running Python CTypes Wrapper Demo ---'') sample_disk"
  let ?c = "compress ?lib (input_file ?h) (compressed_file ?h) ?wb"
  let ?d = "decompress ?lib (compressed_file ?h) (restored_file ?h) (snd ?c)"
  have a: "os_path_exists (files sample_disk) (input_file ?h)"
    by (simp add: os_path_exists_def sample_disk_files)
  have i: "files ?wb (input_file ?h) = Some [1, 2, 3]"
    by (simp add: emit_simps sample_disk_files)
  have c1: "fst ?c = Inr True" by (rule compress_copy_scenario(1) [OF i])
  then have c: "?c = (Inr True, snd ?c)" by (metis prod.collapse)
  have fc: "files (snd ?c) = (files ?wb)(compressed_file ?h \<mapsto> [1, 2, 3])"
    by (rule compress_copy_scenario(2) [OF i])
  then have k: "files (snd ?c) (compressed_file ?h) = Some [1, 2, 3]" by simp
  have d1: "fst ?d = Inr True" by (rule decompress_copy_scenario(1) [OF k])
  then have d: "?d = (Inr True, snd ?d)" by (metis prod.collapse)
  have fd: "files (snd ?d) = (files (snd ?c))(restored_file ?h \<mapsto> [1, 2, 3])"
    by (rule decompress_copy_scenario(2) [OF k])
  have r: "files (snd ?d) (restored_file ?h) = Some [1, 2, 3]"
    "files (snd ?d) (input_file ?h) = Some [1, 2, 3]"
    using paths_distinct [of "str_lit ''linux''" copy_codec copy_codec]
    by (simp_all add: fd fc i)
  note v = verify_three_outcomes [OF a c d]
  have v1: "fst (run_demo ?h ?lib sample_disk) = Inr ()"
    using v by simp
  have v2: "last (trace (snd (verify ?h (snd ?d)))) =
      Print (str_lit ''SUCCESS: Restored file is identical to the original.'')"
    using v [THEN conjunct2, THEN conjunct2, THEN conjunct2, THEN conjunct1] by (simp add: r)
  from a c1 d1 v1 v2 show ?thesis by blast
qed

text \<open>
  Claim C1, at a failing run. The fixture exists, the compress entry point copies it to
  \<open>sample_py.huff\<close> and returns \<open>0\<close>, the decompress entry point returns \<open>-1\<close>. Then
  \<open>run_demo\<close> returns at "Demo failed during decompression.": \<open>os.remove\<close> is never
  called and the compressed file is still there after the run.
\<close>

theorem decompress_abort_leaves_compressed_file:
  "fst (run_demo (posix_host (str_lit ''linux'') copy_codec failing_codec)
         \<lparr>api_compress_file = copy_codec, api_decompress_file = failing_codec\<rparr> sample_disk) = Inr ()
   \<and> os_path_exists
        (files (snd (run_demo (posix_host (str_lit ''linux'') copy_codec failing_codec)
           \<lparr>api_compress_file = copy_codec, api_decompress_file = failing_codec\<rparr> sample_disk)))
        (compressed_file (posix_host (str_lit ''linux'') copy_codec failing_codec))
   \<and> filter is_remove
        (trace (snd (run_demo (posix_host (str_lit ''linux'') copy_codec failing_codec)
           \<lparr>api_compress_file = copy_codec, api_decompress_file = failing_codec\<rparr> sample_disk))) = []"
proof -
  let ?h = "posix_host (str_lit ''linux'') copy_codec failing_codec"
  let ?lib = "\<lparr>api_compress_file = copy_codec, api_decompress_file = failing_codec\<rparr>"
  let ?wb = "emit (str_lit ''--- Running Python CTypes Wrapper Demo ---'') sample_disk"
  let ?c = "compress ?lib (input_file ?h) (compressed_file ?h) ?wb"
  let ?d = "decompress ?lib (compressed_file ?h) (restored_file ?h) (snd ?c)"
  have a: "os_path_exists (files sample_disk) (input_file ?h)"
    by (simp add: os_path_exists_def sample_disk_files)
  have i: "files ?wb (input_file ?h) = Some [1, 2, 3]"
    by (simp add: emit_simps sample_disk_files)
  have c: "?c = (Inr True, snd ?c)"
    using compress_copy_scenario(1) [OF i] by (metis prod.collapse)
  have fc: "files (snd ?c) (compressed_file ?h) = Some [1, 2, 3]"
    by (simp add: compress_copy_scenario(2) [OF i])
  have d: "?d = (Inr False, snd ?d)"
    using decompress_fails_scenario(1) [of copy_codec "str_lit ''linux''" copy_codec failing_codec "snd ?c"]
    by (metis prod.collapse)
  have fd: "files (snd ?d) = files (snd ?c)"
    by (rule decompress_fails_scenario(2))
  have run: "run_demo ?h ?lib sample_disk =
      (Inr (), emit (str_lit ''Demo failed during decompression.'') (snd ?d))"
    by (rule run_demo_decompress_fails [OF a c d])
  have t: "filter is_remove (trace (snd ?d)) = []"
    by (simp add: decompress_no_remove compress_no_remove emit_simps sample_disk_files)
  show ?thesis
    by (simp add: run emit_simps fd fc os_path_exists_def t)
qed

text \<open>
  For comparison, the cleanup step, which every run that reaches the verify step goes
  through, leaves neither artifact behind.
\<close>

lemma cleanup_removes_artifacts:
  "fst (cleanup h w) = Inr ()
   \<and> \<not> os_path_exists (files (snd (cleanup h w))) (compressed_file h)
   \<and> \<not> os_path_exists (files (snd (cleanup h w))) (restored_file h)"
  by (simp add: cleanup_def print_simps Let_def os_remove_def os_path_exists_def)

section \<open>Platforms\<close>

text \<open>
  Claim C2 fails as stated. \<open>freebsd13\<close> starts with none of \<open>linux\<close>, \<open>win\<close>, \<open>darwin\<close>,
  yet name resolution yields \<open>libhuffman.so\<close> for it and the module body, finding that file,
  loads it and binds both entry points: no error.
\<close>

theorem unrecognized_platform_not_an_error:
  "\<not> startswith (str_lit ''freebsd13'') (str_lit ''linux'')
   \<and> \<not> startswith (str_lit ''freebsd13'') (str_lit ''win'')
   \<and> \<not> startswith (str_lit ''freebsd13'') (str_lit ''darwin'')
   \<and> lib_name (str_lit ''freebsd13'') = str_lit ''libhuffman.so''
   \<and> wrapper_import (posix_host (str_lit ''freebsd13'') copy_codec copy_codec) so_disk =
       (Inr \<lparr>api_compress_file = copy_codec, api_decompress_file = copy_codec\<rparr>,
        so_disk\<lparr>trace := [Load (str_lit ''/h/python/../bin/libhuffman.so'')]\<rparr>)"
proof -
  have n: "\<not> startswith (str_lit ''freebsd13'') (str_lit ''linux'')"
    "\<not> startswith (str_lit ''freebsd13'') (str_lit ''win'')"
    "\<not> startswith (str_lit ''freebsd13'') (str_lit ''darwin'')"
    by (simp_all add: startswith_def str_lit_def)
  have l: "lib_name (str_lit ''freebsd13'') = str_lit ''libhuffman.so''"
    using n by (simp add: lib_name_def)
  have e: "os_path_exists (files so_disk) (str_lit ''/h/python/../bin/libhuffman.so'')"
    by (simp add: so_disk_def disk_def os_path_exists_def)
  have t: "trace so_disk = []" by (simp add: so_disk_def disk_def)
  have w: "wrapper_import (posix_host (str_lit ''freebsd13'') copy_codec copy_codec) so_disk =
       (Inr \<lparr>api_compress_file = copy_codec, api_decompress_file = copy_codec\<rparr>,
        so_disk\<lparr>trace := [Load (str_lit ''/h/python/../bin/libhuffman.so'')]\<rparr>)"
    by (simp add: wrapper_import_def libs_posix e t) (simp add: posix_host_def)
  from n l w show ?thesis by blast
qed

text \<open>
  Claim C2 as amended. For every platform identifier that starts with neither \<open>win\<close> nor
  \<open>darwin\<close>, Linux-like or unrecognized alike, name resolution yields the default
  \<open>libhuffman.so\<close> and the module body does exactly what it does on \<open>linux\<close>: an
  unrecognized platform is not an error condition.
\<close>

theorem unrecognized_platform_defaults_to_so:
  assumes "\<not> startswith (sys_platform h) (str_lit ''win'')"
    and "\<not> startswith (sys_platform h) (str_lit ''darwin'')"
  shows "lib_name (sys_platform h) = str_lit ''libhuffman.so''
       \<and> wrapper_import h w = wrapper_import (h\<lparr>sys_platform := str_lit ''linux''\<rparr>) w"
proof -
  have l: "lib_name (sys_platform h) = str_lit ''libhuffman.so''"
    using assms by (simp add: lib_name_def)
  have "lib_name (str_lit ''linux'') = str_lit ''libhuffman.so''"
    by (simp add: lib_name_def startswith_def str_lit_def)
  with l have p: "lib_path (h\<lparr>sys_platform := str_lit ''linux''\<rparr>) = lib_path h"
    by (simp add: lib_path_def)
  show ?thesis using l by (simp add: wrapper_import_def p)
qed

theorem unrecognized_platform_defaults_to_so_witness:
  "\<not> startswith (sys_platform (posix_host (str_lit ''sunos5'') copy_codec copy_codec)) (str_lit ''win'')
   \<and> \<not> startswith (sys_platform (posix_host (str_lit ''sunos5'') copy_codec copy_codec)) (str_lit ''darwin'')
   \<and> lib_name (str_lit ''sunos5'') = str_lit ''libhuffman.so''
   \<and> wrapper_import (posix_host (str_lit ''sunos5'') copy_codec copy_codec) so_disk =
       wrapper_import (posix_host (str_lit ''linux'') copy_codec copy_codec) so_disk"
proof -
  let ?h = "posix_host (str_lit ''sunos5'') copy_codec copy_codec"
  have n: "\<not> startswith (sys_platform ?h) (str_lit ''win'')"
    "\<not> startswith (sys_platform ?h) (str_lit ''darwin'')"
    by (simp_all add: startswith_def str_lit_def posix_host_def)
  have u: "?h\<lparr>sys_platform := str_lit ''linux''\<rparr> = posix_host (str_lit ''linux'') copy_codec copy_codec"
    by (simp add: posix_host_def)
  have s: "sys_platform ?h = str_lit ''sunos5''" by (simp add: posix_host_def)
  show ?thesis
    using n unrecognized_platform_defaults_to_so [OF n, of so_disk]
    by (simp only: u s) simp
qed

text \<open>
  Claim C10 fails as stated. On \<open>darwin\<close> the bridge resolves \<open>libhuffman.dylib\<close>; when a
  file named \<open>libhuffman.so\<close> lies beside it, the bridge initializes, the entry guard
  passes and the harness runs: its banner is printed and the guard's message is not.
\<close>

theorem entry_guard_passes_with_so_counterexample:
  "lib_name (sys_platform (posix_host (str_lit ''darwin'') copy_codec copy_codec))
     = str_lit ''libhuffman.dylib''
   \<and> os_path_exists (files both_libs_disk)
       (lib_path (posix_host (str_lit ''darwin'') copy_codec copy_codec))
   \<and> fst (wrapper_import (posix_host (str_lit ''darwin'') copy_codec copy_codec) both_libs_disk)
       = Inr \<lparr>api_compress_file = copy_codec, api_decompress_file = copy_codec\<rparr>
   \<and> demo_main (posix_host (str_lit ''darwin'') copy_codec copy_codec) both_libs_disk =
       run_demo (posix_host (str_lit ''darwin'') copy_codec copy_codec)
         \<lparr>api_compress_file = copy_codec, api_decompress_file = copy_codec\<rparr>
         (snd (wrapper_import (posix_host (str_lit ''darwin'') copy_codec copy_codec) both_libs_disk))
   \<and> Print (str_lit ''--- Running Python CTypes Wrapper Demo ---'')
       \<in> set (trace (snd (demo_main (posix_host (str_lit ''darwin'') copy_codec copy_codec)
                 both_libs_disk)))
   \<and> Print (str_lit ''Error: 'bin/libhuffman.so' not found.'')
       \<notin> set (trace (snd (demo_main (posix_host (str_lit ''darwin'') copy_codec copy_codec)
                 both_libs_disk)))"
proof -
  let ?h = "posix_host (str_lit ''darwin'') copy_codec copy_codec"
  let ?lib = "\<lparr>api_compress_file = copy_codec, api_decompress_file = copy_codec\<rparr>"
  have l: "lib_name (sys_platform ?h) = str_lit ''libhuffman.dylib''"
    by (simp add: posix_host_def lib_name_def startswith_def str_lit_def)
  have d: "files both_libs_disk (str_lit ''/h/python/../bin/libhuffman.dylib'') = Some [0xCF, 0xFA]"
    "files both_libs_disk (str_lit ''/h/python/../bin/libhuffman.so'') = Some [0x7F, 0x45]"
    "files both_libs_disk (input_file ?h) = None"
    "trace both_libs_disk = []"
    by (simp_all add: both_libs_disk_def disk_def paths_posix) (simp_all add: str_lit_def)
  have e: "os_path_exists (files both_libs_disk) (lib_path ?h)"
    by (simp add: os_path_exists_def libs_posix d)
  have w: "wrapper_import ?h both_libs_disk =
      (Inr ?lib, both_libs_disk\<lparr>trace := [Load (lib_path ?h)]\<rparr>)"
    using e by (simp add: wrapper_import_def d) (simp add: posix_host_def)
  have m: "demo_main ?h both_libs_disk = run_demo ?h ?lib (snd (wrapper_import ?h both_libs_disk))"
    by (simp add: demo_main_def w libs_posix os_path_exists_def d)
  have r: "trace (snd (run_demo ?h ?lib (both_libs_disk\<lparr>trace := [Load (lib_path ?h)]\<rparr>))) =
      [Load (lib_path ?h),
       Print (str_lit ''--- Running Python CTypes Wrapper Demo ---''),
       Print (str_lit ''Error: 'test_files/sample.txt' not found.''),
       Print (str_lit ''Please create it before running the demo.'')]"
    by (simp add: run_demo_def print_simps emit_def os_path_exists_def d)
  have t: "Print (str_lit ''--- Running Python CTypes Wrapper Demo ---'')
       \<in> set (trace (snd (demo_main ?h both_libs_disk)))"
    "Print (str_lit ''Error: 'bin/libhuffman.so' not found.'')
       \<notin> set (trace (snd (demo_main ?h both_libs_disk)))"
    by (simp_all add: m w r) (simp_all add: str_lit_def)
  from l e w m t show ?thesis by simp
qed

text \<open>
  Claim C10 as amended. Once the bridge has initialized (so the library of the platform
  exists), the entry guard of \<open>demo.py\<close> looks for \<open>libhuffman.so\<close> only, whatever the
  platform: the harness is invoked exactly when that file exists. When it does not, as on a
  platform where the bridge resolved \<open>libhuffman.dll\<close> or \<open>libhuffman.dylib\<close> and no
  \<open>.so\<close> was built, the guard prints its two-line "not found" message and the harness is
  never invoked: no foreign call is made.
\<close>

theorem entry_guard_checks_so_name:
  assumes "wrapper_import h w = (Inr lib, w1)"
  shows "os_path_exists (files w) (lib_path h)
       \<and> demo_main h w =
           (if os_path_exists (files w) (demo_lib_path h) then run_demo h lib w1
            else (Inr (),
                  w1\<lparr>trace := trace w1 @
                     [Print (str_lit ''Error: 'bin/libhuffman.so' not found.''),
                      Print (str_lit ''Please run 'make lib' or 'make all' in the root directory first.'')]\<rparr>))
       \<and> (\<not> os_path_exists (files w) (demo_lib_path h) \<longrightarrow>
            filter is_foreign (trace (snd (demo_main h w))) = filter is_foreign (trace w))"
proof -
  note i = wrapper_import_Inr [OF assms]
  have m: "demo_main h w =
           (if os_path_exists (files w) (demo_lib_path h) then run_demo h lib w1
            else (Inr (),
                  w1\<lparr>trace := trace w1 @
                     [Print (str_lit ''Error: 'bin/libhuffman.so' not found.''),
                      Print (str_lit ''Please run 'make lib' or 'make all' in the root directory first.'')]\<rparr>))"
    using assms by (simp add: demo_main_def i(2) print_simps emit_def)
  show ?thesis using i(1) by (simp add: m i(3))
qed

theorem entry_guard_checks_so_name_witness:
  "wrapper_import (posix_host (str_lit ''darwin'') copy_codec copy_codec) dylib_disk =
     (Inr \<lparr>api_compress_file = copy_codec, api_decompress_file = copy_codec\<rparr>,
      dylib_disk\<lparr>trace := [Load (str_lit ''/h/python/../bin/libhuffman.dylib'')]\<rparr>)
   \<and> lib_name (sys_platform (posix_host (str_lit ''darwin'') copy_codec copy_codec))
       = str_lit ''libhuffman.dylib''
   \<and> os_path_exists (files dylib_disk)
       (lib_path (posix_host (str_lit ''darwin'') copy_codec copy_codec))
   \<and> \<not> os_path_exists (files dylib_disk)
       (demo_lib_path (posix_host (str_lit ''darwin'') copy_codec copy_codec))
   \<and> demo_main (posix_host (str_lit ''darwin'') copy_codec copy_codec) dylib_disk =
       (Inr (),
        dylib_disk\<lparr>trace :=
          [Load (str_lit ''/h/python/../bin/libhuffman.dylib''),
           Print (str_lit ''Error: 'bin/libhuffman.so' not found.''),
           Print (str_lit ''Please run 'make lib' or 'make all' in the root directory first.'')]\<rparr>)
   \<and> filter is_foreign
       (trace (snd (demo_main (posix_host (str_lit ''darwin'') copy_codec copy_codec) dylib_disk)))
       = []"
proof -
  let ?h = "posix_host (str_lit ''darwin'') copy_codec copy_codec"
  let ?lib = "\<lparr>api_compress_file = copy_codec, api_decompress_file = copy_codec\<rparr>"
  have l: "lib_name (sys_platform ?h) = str_lit ''libhuffman.dylib''"
    by (simp add: posix_host_def lib_name_def startswith_def str_lit_def)
  have d: "files dylib_disk (str_lit ''/h/python/../bin/libhuffman.dylib'') = Some [0xCF, 0xFA]"
    "files dylib_disk (str_lit ''/h/python/../bin/libhuffman.so'') = None"
    "trace dylib_disk = []"
    by (simp_all add: dylib_disk_def disk_def) (simp_all add: str_lit_def)
  have e: "os_path_exists (files dylib_disk) (lib_path ?h)"
    "\<not> os_path_exists (files dylib_disk) (demo_lib_path ?h)"
    by (simp_all add: os_path_exists_def libs_posix d)
  have w: "wrapper_import ?h dylib_disk =
      (Inr ?lib, dylib_disk\<lparr>trace := [Load (str_lit ''/h/python/../bin/libhuffman.dylib'')]\<rparr>)"
    using e by (simp add: wrapper_import_def d libs_posix) (simp add: posix_host_def)
  note g = entry_guard_checks_so_name [OF w]
  have g1: "demo_main ?h dylib_disk =
       (Inr (),
        dylib_disk\<lparr>trace :=
          [Load (str_lit ''/h/python/../bin/libhuffman.dylib''),
           Print (str_lit ''Error: 'bin/libhuffman.so' not found.''),
           Print (str_lit ''Please run 'make lib' or 'make all' in the root directory first.'')]\<rparr>)"
    using g [THEN conjunct2, THEN conjunct1] e by simp
  have g2: "filter is_foreign (trace (snd (demo_main ?h dylib_disk))) = []"
    using g [THEN conjunct2, THEN conjunct2] e by (simp add: d)
  from w l e g1 g2 show ?thesis by blast
qed

end
